theory Spec2Isabelle
  imports Main "HOL-Library.Word"
begin

section \<open>JavaScript values used by the sources\<close>

text \<open>
  The HTTP trigger reads a request body, which is there as the value that parsing JSON
  gives, or is absent. The property table of an object is an association list in the
  order of the text; where a key is repeated, the last entry is the property.

  A number of the source is an IEEE double. The handler only tests a number for
  truthiness and converts it to a string; both are operations of the language and are
  taken as parameters here, over an arbitrary type \<open>'n\<close> of numbers.
\<close>

datatype 'n js_value =
    Undefined
  | Null
  | Boolean bool
  | Number 'n
  | String string
  | Array "'n js_value list"
  | Object "(string \<times> 'n js_value) list"

datatype js_error = Error (message: string)

record 'n number_ops =
  number_falsy :: "'n \<Rightarrow> bool"
  number_string :: "'n \<Rightarrow> string"

text \<open>
  Truthiness, as tested by \<^verbatim>\<open>!v\<close> and \<^verbatim>\<open>a || b\<close>; \<open>number_falsy\<close> holds of the zeros
  and of NaN.
\<close>

fun truthy :: "'n number_ops \<Rightarrow> 'n js_value \<Rightarrow> bool" where
  "truthy ops Undefined = False"
| "truthy ops Null = False"
| "truthy ops (Boolean b) = b"
| "truthy ops (Number n) = (\<not> number_falsy ops n)"
| "truthy ops (String s) = (s \<noteq> [])"
| "truthy ops (Array xs) = True"
| "truthy ops (Object kvs) = True"

text \<open>
  Property read \<^verbatim>\<open>v.name\<close> for a name that is neither an index nor a built-in
  property: only an object that has the key gives a value. The handler reads a property
  only of a truthy value, so the read itself never fails.
\<close>

fun get_prop :: "'n js_value \<Rightarrow> string \<Rightarrow> 'n js_value" where
  "get_prop (Object kvs) k = (case map_of (rev kvs) k of None \<Rightarrow> Undefined | Some v \<Rightarrow> v)"
| "get_prop Undefined k = Undefined"
| "get_prop Null k = Undefined"
| "get_prop (Boolean b) k = Undefined"
| "get_prop (Number n) k = Undefined"
| "get_prop (String s) k = Undefined"
| "get_prop (Array xs) k = Undefined"

text \<open>
  Decimal digits of a natural number, for the counters and indices that the component
  puts into its debug text.
\<close>

definition digit_char :: "nat \<Rightarrow> char" where
  "digit_char d = ''0123456789'' ! d"

function show_nat :: "nat \<Rightarrow> string" where
  "show_nat n = (if n < 10 then [digit_char n] else show_nat (n div 10) @ [digit_char (n mod 10)])"
  by pat_completeness auto
termination
  by (relation "measure id") auto

text \<open>
  String conversion inside a template literal \<^verbatim>\<open>`${v}`\<close>. An array is converted by
  joining the conversions of its elements with commas, \<^verbatim>\<open>null\<close> and \<^verbatim>\<open>undefined\<close>
  elements giving the empty string. An object is converted by its \<^verbatim>\<open>toString\<close>
  method: the inherited one gives \<^verbatim>\<open>[object Object]\<close>, but a key \<^verbatim>\<open>toString\<close> of
  the object's own hides it, and since no value of a parsed body can be called (and the
  inherited \<^verbatim>\<open>valueOf\<close> returns the object itself) the conversion then throws a
  \<^verbatim>\<open>TypeError\<close>.
\<close>

text \<open>The message is the one of the V8 engine; nothing depends on its text.\<close>

definition type_error :: js_error where
  "type_error = Error ''Cannot convert object to primitive value''"

fun to_string :: "'n number_ops \<Rightarrow> 'n js_value \<Rightarrow> js_error + string"
  and join_elements :: "'n number_ops \<Rightarrow> 'n js_value list \<Rightarrow> js_error + string" where
  "to_string ops Undefined = Inr ''undefined''"
| "to_string ops Null = Inr ''null''"
| "to_string ops (Boolean b) = Inr (if b then ''true'' else ''false'')"
| "to_string ops (Number n) = Inr (number_string ops n)"
| "to_string ops (String s) = Inr s"
| "to_string ops (Array xs) = join_elements ops xs"
| "to_string ops (Object kvs) =
     (if ''toString'' \<in> fst ` set kvs then Inl type_error else Inr ''[object Object]'')"
| "join_elements ops [] = Inr []"
| "join_elements ops (x # xs) =
     (case (case x of Undefined \<Rightarrow> Inr [] | Null \<Rightarrow> Inr [] | _ \<Rightarrow> to_string ops x) of
        Inl err \<Rightarrow> Inl err
      | Inr t \<Rightarrow>
          (if xs = [] then Inr t
           else case join_elements ops xs of
                  Inl err \<Rightarrow> Inl err
                | Inr r \<Rightarrow> Inr (t @ '','' @ r)))"

section \<open>The HTTP trigger\<close>

text \<open>
  \<^verbatim>\<open>module.exports = async function (context, req)\<close>: the function logs one line and
  then assigns \<^verbatim>\<open>context.res\<close>. The model returns the assigned response; the request
  is represented by its \<^verbatim>\<open>body\<close>, \<^verbatim>\<open>Undefined\<close> when there is none. When the
  template literal throws, the function ends with that exception and
  \<^verbatim>\<open>context.res\<close> is not assigned: the result is \<open>Inl\<close>.
\<close>

record response =
  status :: nat
  body :: string

definition http_trigger :: "'n number_ops \<Rightarrow> 'n js_value \<Rightarrow> js_error + response" where
  "http_trigger ops req_body =
     (if \<not> truthy ops req_body \<or> \<not> truthy ops (get_prop req_body ''barcode'')
      then Inr \<lparr>status = 400, body = ''Please pass barcode in request body''\<rparr>
      else case to_string ops (get_prop req_body ''barcode'') of
             Inl err \<Rightarrow> Inl err
           | Inr text \<Rightarrow> Inr \<lparr>status = 200, body = ''Received barcode: '' @ text\<rparr>)"

section \<open>The scanner component\<close>

text \<open>
  \<^verbatim>\<open>BarcodeScanner\<close> is a React function component. Its \<^verbatim>\<open>useState\<close> cells and
  \<^verbatim>\<open>useRef\<close> cells are the fields of one record; a state setter is an assignment, and
  a functional setter \<^verbatim>\<open>setX(prev => f(prev))\<close> applies \<open>f\<close> to the current value.
  The record also keeps what the component does to its collaborators: the streams whose
  tracks were stopped, the readers that were reset or started, and the camera requests.

  Streams and readers are objects; they are represented by numbers that identify them.
  A rejected camera request or a failed DOM call carries an \<^verbatim>\<open>Error\<close> object, of which
  only the message is read. The debug text is the source's text without the pictograph
  that starts each line. The field \<open>cameraStatus\<close> exists in the variant of the component that
  falls back over several constraint profiles, \<open>scanIntervalRef\<close> in the
  single-profile variant.
\<close>

type_synonym stream = nat
type_synonym reader = nat

datatype camera_status = initializing | requesting | granted | loading | ready | status_error

record range =
  r_min :: "nat option"
  r_ideal :: "nat option"
  r_max :: "nat option"

text \<open>
  The constraint objects are kept as they are written: \<^verbatim>\<open>facingMode: { ideal: m }\<close> is
  \<open>Facing_ideal m\<close>, the bare \<^verbatim>\<open>facingMode: m\<close> is \<open>Facing_bare m\<close>.
\<close>

datatype facing = Facing_ideal string | Facing_bare string

record video_constraints =
  facingMode :: "facing option"
  width :: "range option"
  height :: "range option"
  frameRate :: "range option"
  aspectRatio :: "(nat \<times> nat) option"

datatype video_request = Video_any | Video_with video_constraints

record media_constraints =
  video :: video_request
  audio :: bool

record video_element =
  srcObject :: "stream option"
  autoplay :: bool
  playsInline :: bool
  muted :: bool
  loads :: nat

record scanner =
  isScanning :: bool
  error :: string
  hasPermission :: "bool option"
  scannedCodes :: "string list"
  lastScannedCode :: string
  debugInfo :: string
  scanAttempts :: nat
  showDebug :: bool
  videoReady :: bool
  cameraStatus :: camera_status
  streamRef :: "stream option"
  codeReaderRef :: "reader option"
  isInitializedRef :: bool
  isMountedRef :: bool
  scanIntervalRef :: "nat option"
  videoRef :: "video_element option"
  stopped :: "stream list"
  readers_created :: nat
  readers_reset :: "reader list"
  readers_started :: "reader list"
  camera_requests :: "media_constraints list"

definition append_debug :: "string \<Rightarrow> scanner \<Rightarrow> scanner" where
  "append_debug line s = s\<lparr>debugInfo := debugInfo s @ CHR 10 # line\<rparr>"

subsection \<open>The decode callback and the list of scanned codes\<close>

text \<open>
  The callback given to \<^verbatim>\<open>decodeFromVideoDevice\<close> receives \<^verbatim>\<open>(result, error)\<close>: a
  result with its text and its format number, or an error, or neither. It closes over
  the value that \<^verbatim>\<open>scanAttempts\<close> had when the callback was created.
\<close>

datatype decode_attempt = Decoded string nat | Decode_error js_error | Nothing_decoded

definition add_scanned :: "string \<Rightarrow> string list \<Rightarrow> string list" where
  "add_scanned scannedValue prev =
     (if scannedValue \<notin> set prev then prev @ [scannedValue] else prev)"

definition decode_callback :: "nat \<Rightarrow> decode_attempt \<Rightarrow> scanner \<Rightarrow> scanner" where
  "decode_callback captured a s =
     (if \<not> isMountedRef s then s
      else
        let s1 = s\<lparr>scanAttempts := scanAttempts s + 1\<rparr> in
        case a of
          Decoded scannedValue format \<Rightarrow>
            (let s2 = s1\<lparr>lastScannedCode := scannedValue\<rparr>;
                 s3 = append_debug (''Detected: '' @ scannedValue @ '' ('' @ show_nat format @ '')'') s2
             in s3\<lparr>scannedCodes := add_scanned scannedValue (scannedCodes s3)\<rparr>)
        | Decode_error e \<Rightarrow>
            (if captured mod 100 = 0
             then append_debug (''Scanning... ('' @ show_nat captured @ '' attempts)'') s1
             else s1)
        | Nothing_decoded \<Rightarrow> s1)"

text \<open>\<^verbatim>\<open>prev.filter((_, i) => i !== index)\<close>\<close>

fun filter_index :: "nat \<Rightarrow> nat \<Rightarrow> 'a list \<Rightarrow> 'a list" where
  "filter_index i index [] = []"
| "filter_index i index (x # xs) =
     (if i \<noteq> index then x # filter_index (Suc i) index xs else filter_index (Suc i) index xs)"

definition removeScannedCode :: "nat \<Rightarrow> scanner \<Rightarrow> scanner" where
  "removeScannedCode index s = s\<lparr>scannedCodes := filter_index 0 index (scannedCodes s)\<rparr>"

subsection \<open>Tear-down\<close>

text \<open>
  \<^verbatim>\<open>cleanup\<close> of the single-profile component. \<^verbatim>\<open>reset()\<close> is called inside
  \<^verbatim>\<open>try\<close>; an exception from it is logged to the console only, so both outcomes
  leave the same state.
\<close>

definition cleanup_reader :: "scanner \<Rightarrow> scanner" where
  "cleanup_reader s =
     (case codeReaderRef s of
        None \<Rightarrow> s
      | Some r \<Rightarrow> s\<lparr>readers_reset := readers_reset s @ [r], codeReaderRef := None\<rparr>)"

definition cleanup_stream :: "scanner \<Rightarrow> scanner" where
  "cleanup_stream s =
     (case streamRef s of
        None \<Rightarrow> s
      | Some st \<Rightarrow> s\<lparr>stopped := stopped s @ [st], streamRef := None\<rparr>)"

definition cleanup_video :: "scanner \<Rightarrow> scanner" where
  "cleanup_video s =
     (case videoRef s of
        None \<Rightarrow> s
      | Some v \<Rightarrow> s\<lparr>videoRef := Some (v\<lparr>srcObject := None, loads := loads v + 1\<rparr>)\<rparr>)"

definition cleanup :: "scanner \<Rightarrow> scanner" where
  "cleanup s =
     (let s1 = s\<lparr>isInitializedRef := False, isScanning := False, videoReady := False\<rparr>;
          s2 = (case scanIntervalRef s1 of None \<Rightarrow> s1 | Some t \<Rightarrow> s1\<lparr>scanIntervalRef := None\<rparr>)
      in cleanup_video (cleanup_stream (cleanup_reader s2)))"

subsection \<open>Initialisation, one segment per suspension point\<close>

text \<open>
  \<^verbatim>\<open>initializeScanner\<close> is an \<^verbatim>\<open>async\<close> function: it runs to its first
  \<^verbatim>\<open>await\<close>, and each later segment runs when the awaited promise settles. Between two
  segments the event loop may run any other handler of the component. Each segment is a
  function on the state; the whole body is inside \<^verbatim>\<open>try\<close>, and \<open>initializeScanner_catch\<close>
  is its handler.
\<close>

definition constraints :: media_constraints where
  "constraints =
     \<lparr>video = Video_with
        \<lparr>facingMode = Some (Facing_ideal ''environment''),
         width = Some \<lparr>r_min = Some 640, r_ideal = Some 1280, r_max = Some 1920\<rparr>,
         height = Some \<lparr>r_min = Some 480, r_ideal = Some 720, r_max = Some 1080\<rparr>,
         frameRate = Some \<lparr>r_min = Some 15, r_ideal = Some 30, r_max = Some 60\<rparr>,
         aspectRatio = Some (16, 9)\<rparr>,
      audio = False\<rparr>"

definition initializeScanner_catch :: "js_error \<Rightarrow> scanner \<Rightarrow> scanner" where
  "initializeScanner_catch err s =
     (if \<not> isMountedRef s then s
      else
        let errorMessage = message err;
            s1 = s\<lparr>isInitializedRef := False, hasPermission := Some False,
                   error := ''Camera initialization failed: '' @ errorMessage\<rparr>
        in append_debug (''Error: '' @ errorMessage) s1)"

text \<open>
  From the entry to \<^verbatim>\<open>await navigator.mediaDevices.getUserMedia(constraints)\<close>. The
  argument is the exception that evaluating the call raises at once, if any (there is no
  \<^verbatim>\<open>navigator.mediaDevices\<close>); otherwise the request is issued and stays pending.
\<close>

definition initializeScanner_start :: "js_error option \<Rightarrow> scanner \<Rightarrow> scanner" where
  "initializeScanner_start sync_failure s =
     (if isInitializedRef s \<or> \<not> isMountedRef s then s
      else
        let s1 = s\<lparr>isInitializedRef := True, error := [], debugInfo := ''Initializing camera...''\<rparr>;
            s2 = s1\<lparr>codeReaderRef := Some (readers_created s1),
                    readers_created := readers_created s1 + 1\<rparr>;
            s3 = append_debug ''Requesting camera access...'' s2
        in case sync_failure of
             Some err \<Rightarrow> initializeScanner_catch err s3
           | None \<Rightarrow> s3\<lparr>camera_requests := camera_requests s3 @ [constraints]\<rparr>)"

text \<open>
  The \<^verbatim>\<open>video\<close> element is part of the output only while \<^verbatim>\<open>hasPermission\<close> is true;
  a render attaches a new element to \<^verbatim>\<open>videoRef\<close> or detaches the old one accordingly.
  Of what a render does, only this is visible to the handlers.
\<close>

definition new_video :: video_element where
  "new_video = \<lparr>srcObject = None, autoplay = True, playsInline = True, muted = True, loads = 0\<rparr>"

definition render :: "scanner \<Rightarrow> scanner" where
  "render s =
     (if hasPermission s = Some True
      then (case videoRef s of None \<Rightarrow> s\<lparr>videoRef := Some new_video\<rparr> | Some v \<Rightarrow> s)
      else s\<lparr>videoRef := None\<rparr>)"

text \<open>
  The request resolved with a stream: up to the promise that waits for the video. The
  function sets \<^verbatim>\<open>hasPermission\<close> and then reads \<^verbatim>\<open>videoRef.current\<close>. Whether the
  element is there by then depends on how React schedules the update: a root that
  renders updates made outside its own event handlers at once has rendered (\<open>sync\<close>),
  a root that batches them has not.
\<close>

definition initializeScanner_granted :: "stream \<Rightarrow> bool \<Rightarrow> scanner \<Rightarrow> scanner" where
  "initializeScanner_granted strm sync s =
     (if \<not> isMountedRef s then s\<lparr>stopped := stopped s @ [strm]\<rparr>
      else
        let s1 = s\<lparr>streamRef := Some strm, hasPermission := Some True\<rparr>;
            s2 = append_debug ''Camera access granted'' s1;
            s3 = (if sync then render s2 else s2)
        in case videoRef s3 of
             None \<Rightarrow> s3
           | Some v \<Rightarrow>
               s3\<lparr>videoRef := Some (v\<lparr>srcObject := Some strm, autoplay := True,
                                       playsInline := True, muted := True\<rparr>)\<rparr>)"

text \<open>
  The video promise resolved: the function returns if the component is no longer
  mounted, else it calls \<^verbatim>\<open>video.play()\<close> and waits; the state is the same either way.
\<close>

definition initializeScanner_loaded :: "scanner \<Rightarrow> scanner" where
  "initializeScanner_loaded s = (if \<not> isMountedRef s then s else s)"

text \<open>
  The video promise rejected: \<^verbatim>\<open>onError\<close> builds the error from the event's message,
  \<^verbatim>\<open>error.message || 'Unknown error'\<close>.
\<close>

definition video_load_error :: "string option \<Rightarrow> js_error" where
  "video_load_error m =
     Error (''Video loading failed: '' @
            (case m of None \<Rightarrow> ''Unknown error'' | Some t \<Rightarrow> if t = [] then ''Unknown error'' else t))"

text \<open>
  After \<^verbatim>\<open>video.play()\<close> settled (\<open>played\<close> tells whether it resolved): the rest of the
  body. A rejected \<^verbatim>\<open>play()\<close> only starts the timer of the second attempt.
\<close>

definition initializeScanner_played :: "bool \<Rightarrow> scanner \<Rightarrow> scanner" where
  "initializeScanner_played played s =
     (let s1 = (if played
                then append_debug ''Video playing successfully'' (s\<lparr>videoReady := True\<rparr>)
                else s)
      in if \<not> isMountedRef s1 then s1
         else (append_debug ''Starting barcode scanner...'' s1)\<lparr>isScanning := True\<rparr>)"

text \<open>
  The timer of the second \<^verbatim>\<open>play()\<close> attempt: nothing when the video is not paused,
  else \<^verbatim>\<open>videoReady\<close> is set whether the attempt succeeds or not.
\<close>

datatype play_retry = Not_paused | Retry_played | Retry_failed

definition play_retry_timer :: "play_retry \<Rightarrow> scanner \<Rightarrow> scanner" where
  "play_retry_timer r s =
     (case r of
        Not_paused \<Rightarrow> s
      | Retry_played \<Rightarrow> append_debug ''Video playing (retry successful)'' (s\<lparr>videoReady := True\<rparr>)
      | Retry_failed \<Rightarrow> (append_debug ''Video play issues, but continuing...'' s)\<lparr>videoReady := True\<rparr>)"

subsection \<open>Starting the decoder\<close>

text \<open>
  \<^verbatim>\<open>startBarcodeScanning\<close>; the argument is the exception that
  \<^verbatim>\<open>decodeFromVideoDevice\<close> raises, if any.
\<close>

definition startBarcodeScanning :: "js_error option \<Rightarrow> scanner \<Rightarrow> scanner" where
  "startBarcodeScanning failure s =
     (if codeReaderRef s = None \<or> videoRef s = None \<or> \<not> isMountedRef s then s
      else
        let s1 = append_debug ''Barcode detection active'' s in
        case failure of
          None \<Rightarrow>
            (case codeReaderRef s1 of
               None \<Rightarrow> s1
             | Some r \<Rightarrow> s1\<lparr>readers_started := readers_started s1 @ [r]\<rparr>)
        | Some scanError \<Rightarrow>
            (if \<not> isMountedRef s1 then s1
             else append_debug (''Scanner error: '' @ message scanError)
                    (s1\<lparr>error := ''Scanner error: '' @ message scanError\<rparr>)))"

subsection \<open>Retry and mounting\<close>

text \<open>
  \<^verbatim>\<open>retryScanning\<close> calls \<^verbatim>\<open>cleanup\<close> and sets a timer of one second; when the
  timer fires, \<^verbatim>\<open>initializeScanner\<close> is called if the component is still mounted.
\<close>

definition retryScanning :: "scanner \<Rightarrow> scanner" where
  "retryScanning s = cleanup s"

definition retry_timer :: "js_error option \<Rightarrow> scanner \<Rightarrow> scanner" where
  "retry_timer sync_failure s =
     (if isMountedRef s then initializeScanner_start sync_failure s else s)"

text \<open>The timer set at the end of \<^verbatim>\<open>initializeScanner\<close>.\<close>

definition scanning_timer :: "js_error option \<Rightarrow> scanner \<Rightarrow> scanner" where
  "scanning_timer failure s = (if isMountedRef s then startBarcodeScanning failure s else s)"

text \<open>
  The effect of \<^verbatim>\<open>useEffect\<close> and its clean-up function. When the component is
  removed, React first detaches the element references and then runs the clean-up.
\<close>

definition mount :: "js_error option \<Rightarrow> scanner \<Rightarrow> scanner" where
  "mount sync_failure s = initializeScanner_start sync_failure (s\<lparr>isMountedRef := True\<rparr>)"

definition unmount :: "scanner \<Rightarrow> scanner" where
  "unmount s = cleanup (s\<lparr>videoRef := None, isMountedRef := False\<rparr>)"

text \<open>The handlers \<^verbatim>\<open>onLoadedData\<close> and \<^verbatim>\<open>onError\<close> of the video element.\<close>

definition onLoadedData :: "scanner \<Rightarrow> scanner" where
  "onLoadedData s = append_debug ''Video data loaded'' (s\<lparr>videoReady := True\<rparr>)"

definition onError :: "scanner \<Rightarrow> scanner" where
  "onError s = append_debug ''Video error occurred'' s"

subsection \<open>The component as a transition system\<close>

text \<open>
  Everything that can run on the event loop is an event: a user action, a timer, a
  callback of the decoder, or the segment of a suspended \<^verbatim>\<open>initializeScanner\<close> call
  that runs when its promise settles. A run of the component is a list of events.
\<close>

datatype event =
    Mount "js_error option"
  | Unmount
  | Render
  | Granted stream bool
  | Denied js_error
  | Video_loaded
  | Video_failed "string option"
  | Played bool
  | Play_retry play_retry
  | Scanning_timer "js_error option"
  | Retry_click
  | Retry_timer "js_error option"
  | Decode nat decode_attempt
  | Remove nat
  | Loaded_data
  | Video_error
  | Toggle_debug

fun step :: "event \<Rightarrow> scanner \<Rightarrow> scanner" where
  "step (Mount f) s = mount f s"
| "step Unmount s = unmount s"
| "step Render s = render s"
| "step (Granted strm sync) s = initializeScanner_granted strm sync s"
| "step (Denied err) s = initializeScanner_catch err s"
| "step Video_loaded s = initializeScanner_loaded s"
| "step (Video_failed m) s = initializeScanner_catch (video_load_error m) s"
| "step (Played b) s = initializeScanner_played b s"
| "step (Play_retry r) s = play_retry_timer r s"
| "step (Scanning_timer f) s = scanning_timer f s"
| "step Retry_click s = retryScanning s"
| "step (Retry_timer f) s = retry_timer f s"
| "step (Decode captured a) s = decode_callback captured a s"
| "step (Remove index) s = removeScannedCode index s"
| "step Loaded_data s = onLoadedData s"
| "step Video_error s = onError s"
| "step Toggle_debug s = s\<lparr>showDebug := \<not> showDebug s\<rparr>"

primrec run :: "event list \<Rightarrow> scanner \<Rightarrow> scanner" where
  "run [] s = s"
| "run (e # es) s = run es (step e s)"

text \<open>The state of the component before its first effect runs.\<close>

definition initial :: scanner where
  "initial =
     \<lparr>isScanning = False, error = [], hasPermission = None, scannedCodes = [],
      lastScannedCode = [], debugInfo = [], scanAttempts = 0, showDebug = False,
      videoReady = False, cameraStatus = initializing, streamRef = None,
      codeReaderRef = None, isInitializedRef = False, isMountedRef = True,
      scanIntervalRef = None, videoRef = None, stopped = [],
      readers_created = 0, readers_reset = [], readers_started = [], camera_requests = []\<rparr>"

subsection \<open>What a call does for its caller\<close>

text \<open>
  The operations that the rest of the program can invoke on the component. None of them
  lets an exception escape: the body of \<^verbatim>\<open>initializeScanner\<close> after its guard is inside
  \<^verbatim>\<open>try\<close> and its handler does not throw again, \<^verbatim>\<open>cleanup\<close> wraps the only call
  that can fail, and the decode callback and \<^verbatim>\<open>retryScanning\<close> only assign.
\<close>

datatype operation = Start "js_error option" | Stop | Retry | Deliver nat decode_attempt

datatype completion = Returned | Threw js_error

fun call :: "operation \<Rightarrow> scanner \<Rightarrow> completion \<times> scanner" where
  "call (Start f) s = (Returned, initializeScanner_start f s)"
| "call Stop s = (Returned, cleanup s)"
| "call Retry s = (Returned, retryScanning s)"
| "call (Deliver captured a) s = (Returned, decode_callback captured a s)"

primrec calls :: "operation list \<Rightarrow> scanner \<Rightarrow> scanner" where
  "calls [] s = s"
| "calls (c # cs) s = calls cs (snd (call c s))"

section \<open>The component with fallback constraint profiles\<close>

text \<open>
  The second variant of \<^verbatim>\<open>initializeScanner\<close> checks the environment, then tries the
  entries of \<^verbatim>\<open>constraintOptions\<close> one after the other. The environment gives, for the
  request number \<open>i\<close> (from 0) and its constraints, the stream or the error with which
  \<^verbatim>\<open>getUserMedia\<close> settles, and what the event loop does to the component while that
  request is pending.
\<close>

definition constraintOptions :: "media_constraints list" where
  "constraintOptions =
     [\<lparr>video = Video_with
         \<lparr>facingMode = Some (Facing_ideal ''environment''),
          width = Some \<lparr>r_min = Some 640, r_ideal = Some 1280, r_max = Some 1920\<rparr>,
          height = Some \<lparr>r_min = Some 480, r_ideal = Some 720, r_max = Some 1080\<rparr>,
          frameRate = Some \<lparr>r_min = None, r_ideal = Some 30, r_max = None\<rparr>,
          aspectRatio = None\<rparr>,
       audio = False\<rparr>,
      \<lparr>video = Video_with
         \<lparr>facingMode = Some (Facing_bare ''environment''),
          width = Some \<lparr>r_min = None, r_ideal = Some 1280, r_max = None\<rparr>,
          height = Some \<lparr>r_min = None, r_ideal = Some 720, r_max = None\<rparr>,
          frameRate = None,
          aspectRatio = None\<rparr>,
       audio = False\<rparr>,
      \<lparr>video = Video_with
         \<lparr>facingMode = None,
          width = Some \<lparr>r_min = None, r_ideal = Some 640, r_max = None\<rparr>,
          height = Some \<lparr>r_min = None, r_ideal = Some 480, r_max = None\<rparr>,
          frameRate = None,
          aspectRatio = None\<rparr>,
       audio = False\<rparr>,
      \<lparr>video = Video_any, audio = False\<rparr>]"

text \<open>
  \<open>isSecureContext\<close> is \<^verbatim>\<open>window.isSecureContext\<close>; \<open>mediaDevices\<close> tells whether
  \<^verbatim>\<open>navigator.mediaDevices\<close> and its \<^verbatim>\<open>getUserMedia\<close> both exist.
\<close>

record environment =
  isSecureContext :: bool
  mediaDevices :: bool
  camera :: "nat \<Rightarrow> media_constraints \<Rightarrow> js_error + stream"
  between :: "nat \<Rightarrow> scanner \<Rightarrow> scanner"

text \<open>
  The local variables of the loop, the requests issued so far in their order, and the
  component.
\<close>

record acquisition =
  granted_stream :: "stream option"
  lastError :: "js_error option"
  attempted :: "media_constraints list"
  comp :: scanner

definition begin_acquisition :: "scanner \<Rightarrow> acquisition" where
  "begin_acquisition s = \<lparr>granted_stream = None, lastError = None, attempted = [], comp = s\<rparr>"

text \<open>
  \<^verbatim>\<open>for (let i = 0; i < constraintOptions.length; i++)\<close>, from index \<open>i\<close> with the
  options that are left; a granted request leaves the loop.
\<close>

primrec try_options ::
  "environment \<Rightarrow> nat \<Rightarrow> media_constraints list \<Rightarrow> acquisition \<Rightarrow> acquisition" where
  "try_options env i [] a = a"
| "try_options env i (c # cs) a =
     (let a1 = a\<lparr>comp := append_debug (''Trying camera option '' @ show_nat (i + 1) @ ''...'') (comp a)\<rparr>;
          a2 = a1\<lparr>attempted := attempted a1 @ [c], comp := between env i (comp a1)\<rparr>
      in case camera env i c of
           Inr strm \<Rightarrow>
             a2\<lparr>granted_stream := Some strm,
                comp := append_debug (''Camera option '' @ show_nat (i + 1) @ '' successful'') (comp a2)\<rparr>
         | Inl err \<Rightarrow>
             try_options env (i + 1) cs
               (a2\<lparr>lastError := Some err,
                   comp := append_debug
                     (''Camera option '' @ show_nat (i + 1) @ '' failed: '' @ message err) (comp a2)\<rparr>))"

text \<open>
  The \<^verbatim>\<open>try\<close> block up to the test of \<^verbatim>\<open>stream\<close>: \<open>Inl\<close> is a \<^verbatim>\<open>throw\<close>, with the
  state in which it happens.
\<close>

definition acquire ::
  "environment \<Rightarrow> media_constraints list \<Rightarrow> scanner \<Rightarrow> (js_error \<times> acquisition) + acquisition" where
  "acquire env options s =
     (if \<not> isSecureContext env
      then Inl (Error ''Camera requires HTTPS connection'', begin_acquisition s)
      else if \<not> mediaDevices env
      then Inl (Error ''Camera API not available in this browser'', begin_acquisition s)
      else
        let s1 = append_debug ''Requesting camera permission...'' (s\<lparr>cameraStatus := requesting\<rparr>);
            a = try_options env 0 options (begin_acquisition s1)
        in case granted_stream a of
             None \<Rightarrow>
               Inl (case lastError a of
                      Some err \<Rightarrow> err
                    | None \<Rightarrow> Error ''Failed to access camera with all constraint options'',
                    a)
           | Some strm \<Rightarrow> Inr a)"

definition fallback_catch :: "js_error \<Rightarrow> scanner \<Rightarrow> scanner" where
  "fallback_catch err s =
     (if \<not> isMountedRef s then s
      else
        let errorMessage = message err;
            s1 = s\<lparr>isInitializedRef := False, cameraStatus := status_error,
                   hasPermission := Some False,
                   error := ''Camera initialization failed: '' @ errorMessage\<rparr>
        in append_debug (''Initialization error: '' @ errorMessage) s1)"

text \<open>
  \<^verbatim>\<open>initializeScanner\<close> of this variant, from its entry to the point where the granted
  stream is stored and reported; the set-up of the video element follows from there.
  The list of options is an argument; the component passes \<open>constraintOptions\<close>.
\<close>

definition initializeScanner_with ::
  "environment \<Rightarrow> media_constraints list \<Rightarrow> scanner \<Rightarrow> acquisition" where
  "initializeScanner_with env options s =
     (if isInitializedRef s \<or> \<not> isMountedRef s then begin_acquisition s
      else
        let s1 = s\<lparr>isInitializedRef := True, error := [], cameraStatus := initializing,
                   debugInfo := ''Initializing camera system...''\<rparr>
        in case acquire env options s1 of
             Inl (err, a) \<Rightarrow> a\<lparr>comp := fallback_catch err (comp a)\<rparr>
           | Inr a \<Rightarrow>
               (case granted_stream a of
                  None \<Rightarrow> a
                | Some strm \<Rightarrow>
                    if \<not> isMountedRef (comp a)
                    then a\<lparr>comp := (comp a)\<lparr>stopped := stopped (comp a) @ [strm]\<rparr>\<rparr>
                    else
                      a\<lparr>comp := append_debug ''Camera access granted successfully''
                                 ((comp a)\<lparr>streamRef := Some strm, cameraStatus := granted,
                                           hasPermission := Some True\<rparr>)\<rparr>))"

definition initializeScanner_fallback :: "environment \<Rightarrow> scanner \<Rightarrow> acquisition" where
  "initializeScanner_fallback env s = initializeScanner_with env constraintOptions s"

text \<open>
  For comparison, the start of the single-profile variant in such an environment. That
  variant reads neither \<^verbatim>\<open>window.isSecureContext\<close> nor tests
  \<^verbatim>\<open>navigator.mediaDevices\<close>: where the latter is missing, evaluating
  \<^verbatim>\<open>navigator.mediaDevices.getUserMedia\<close> raises the engine's \<^verbatim>\<open>TypeError\<close>, given
  as the second argument.
\<close>

definition initializeScanner_single :: "environment \<Rightarrow> js_error \<Rightarrow> scanner \<Rightarrow> scanner" where
  "initializeScanner_single env type_err s =
     initializeScanner_start (if mediaDevices env then None else Some type_err) s"

section \<open>Notions used to state the properties\<close>

text \<open>The texts of a sequence of decode attempts, in the order of their delivery.\<close>

fun decoded_texts :: "decode_attempt list \<Rightarrow> string list" where
  "decoded_texts [] = []"
| "decoded_texts (Decoded t f # as) = t # decoded_texts as"
| "decoded_texts (Decode_error e # as) = decoded_texts as"
| "decoded_texts (Nothing_decoded # as) = decoded_texts as"

text \<open>The distinct elements of a list in the order in which they first occur.\<close>

fun first_seen :: "string list \<Rightarrow> string list" where
  "first_seen [] = []"
| "first_seen (x # xs) = x # filter (\<lambda>y. y \<noteq> x) (first_seen xs)"

text \<open>Delivering attempts to the callback, each with the attempt count its closure holds.\<close>

definition deliveries :: "(nat \<times> decode_attempt) list \<Rightarrow> event list" where
  "deliveries as = map (\<lambda>(captured, a). Decode captured a) as"



fun is_mount :: "event \<Rightarrow> bool" where
  "is_mount (Mount f) = True"
| "is_mount _ = False"

fun changes_codes :: "event \<Rightarrow> bool" where
  "changes_codes (Decode captured a) = True"
| "changes_codes (Remove i) = True"
| "changes_codes _ = False"

text \<open>
  What the claim about the HTTP trigger calls a body with a barcode field, and the values
  whose conversion to a string does not throw.
\<close>

fun has_barcode_field :: "'n js_value \<Rightarrow> bool" where
  "has_barcode_field (Object kvs) = (''barcode'' \<in> fst ` set kvs)"
| "has_barcode_field Undefined = False"
| "has_barcode_field Null = False"
| "has_barcode_field (Boolean b) = False"
| "has_barcode_field (Number n) = False"
| "has_barcode_field (String s) = False"
| "has_barcode_field (Array xs) = False"

fun converts :: "'n js_value \<Rightarrow> bool" where
  "converts (Object kvs) = (''toString'' \<notin> fst ` set kvs)"
| "converts (Array xs) = list_all converts xs"
| "converts Undefined = True"
| "converts Null = True"
| "converts (Boolean b) = True"
| "converts (Number n) = True"
| "converts (String s) = True"

text \<open>
  A component after its removal: the flags are down and no reader, stream, timer or video
  element is referenced.
\<close>

definition torn_down :: "scanner \<Rightarrow> bool" where
  "torn_down s \<longleftrightarrow>
     \<not> isMountedRef s \<and> \<not> isInitializedRef s \<and> \<not> isScanning s \<and> \<not> videoReady s
     \<and> scanIntervalRef s = None \<and> codeReaderRef s = None \<and> streamRef s = None
     \<and> videoRef s = None"

text \<open>
  A granted stream is accounted for when its tracks were stopped or the component still
  holds it in \<open>streamRef\<close>, from where \<open>cleanup\<close> releases it.
\<close>

definition settled :: "stream \<Rightarrow> scanner \<Rightarrow> bool" where
  "settled strm s \<longleftrightarrow> strm \<in> set (stopped s) \<or> streamRef s = Some strm"

fun is_granted :: "event \<Rightarrow> bool" where
  "is_granted (Granted strm sync) = True"
| "is_granted _ = False"

text \<open>
  A session in which one code is scanned: the camera is granted, the video loads and
  plays, the decoder starts and reports \<open>123\<close>.
\<close>

definition session_with_one_code :: "event list" where
  "session_with_one_code =
     [Mount None, Granted 1 True, Video_loaded, Played True, Scanning_timer None,
      Decode 0 (Decoded ''123'' 1)]"

text \<open>
  A session in which the user dismisses the permission prompt, asks to try again, and
  asks once more while the second request is still pending; then both pending requests
  are granted, with the streams 1 and 2, and the call that received stream 1 runs to
  its end.
\<close>

definition overlapping_retries :: "event list" where
  "overlapping_retries =
     [Mount None, Denied (Error ''Permission dismissed''), Render, Retry_click, Retry_timer None,
      Retry_click, Retry_timer None, Granted 1 True, Granted 2 True, Video_loaded, Played True]"

text \<open>
  A session in which a code is scanned and a retry control is on the screen afterwards:
  as before the user has asked twice to try again, so two requests are pending; the
  first is granted, the video plays, the decoder starts and reports \<open>123\<close>; then the
  other request is rejected, which sets \<^verbatim>\<open>hasPermission\<close> to false and the error text.
\<close>

definition session_with_code_and_denial :: "event list" where
  "session_with_code_and_denial =
     [Mount None, Denied (Error ''Permission dismissed''), Render, Retry_click, Retry_timer None,
      Retry_click, Retry_timer None, Granted 1 True, Video_loaded, Played True,
      Scanning_timer None, Decode 0 (Decoded ''123'' 1), Denied (Error ''NotReadableError''),
      Render]"

text \<open>
  The numbers that are natural numbers below \<open>2 ^ 53\<close>: a double holds each of them
  exactly and its string is the decimal numeral.
\<close>

definition small_naturals :: "53 word number_ops" where
  "small_naturals = \<lparr>number_falsy = (\<lambda>w. w = 0), number_string = (\<lambda>w. show_nat (unat w))\<rparr>"

text \<open>Environments that serve as concrete inputs.\<close>

definition insecure_without_api :: environment where
  "insecure_without_api =
     \<lparr>isSecureContext = False, mediaDevices = False,
      camera = (\<lambda>i c. Inl (Error ''NotFoundError'')), between = (\<lambda>i s. s)\<rparr>"

definition secure_without_api :: environment where
  "secure_without_api =
     \<lparr>isSecureContext = True, mediaDevices = False,
      camera = (\<lambda>i c. Inl (Error ''NotFoundError'')), between = (\<lambda>i s. s)\<rparr>"

definition second_profile_granted :: environment where
  "second_profile_granted =
     \<lparr>isSecureContext = True, mediaDevices = True,
      camera = (\<lambda>i c. if i = 0 then Inl (Error ''OverconstrainedError'') else Inr 7),
      between = (\<lambda>i s. s)\<rparr>"

definition no_camera :: environment where
  "no_camera =
     \<lparr>isSecureContext = True, mediaDevices = True,
      camera = (\<lambda>i c. Inl (Error (''NotFoundError '' @ show_nat i))),
      between = (\<lambda>i s. s)\<rparr>"

section \<open>What each handler leaves alone\<close>

lemmas handler_defs =
  mount_def unmount_def render_def retryScanning_def retry_timer_def scanning_timer_def
  initializeScanner_start_def initializeScanner_granted_def initializeScanner_catch_def
  initializeScanner_loaded_def cleanup_def cleanup_video_def cleanup_stream_def
  cleanup_reader_def append_debug_def Let_def

lemma scannedCodes_append_debug [simp]: "scannedCodes (append_debug l s) = scannedCodes s"
  by (simp add: append_debug_def)

lemma isMountedRef_append_debug [simp]: "isMountedRef (append_debug l s) = isMountedRef s"
  by (simp add: append_debug_def)

lemma scannedCodes_cleanup [simp]: "scannedCodes (cleanup s) = scannedCodes s"
  by (simp add: cleanup_def cleanup_video_def cleanup_stream_def cleanup_reader_def Let_def
      split: option.splits)

lemma scannedCodes_catch [simp]: "scannedCodes (initializeScanner_catch e s) = scannedCodes s"
  by (simp add: initializeScanner_catch_def Let_def)

lemma scannedCodes_start [simp]: "scannedCodes (initializeScanner_start f s) = scannedCodes s"
  by (simp add: initializeScanner_start_def Let_def split: option.splits)

lemma scannedCodes_granted [simp]:
  "scannedCodes (initializeScanner_granted st b s) = scannedCodes s"
  by (simp add: initializeScanner_granted_def render_def Let_def split: option.splits)

lemma scannedCodes_played [simp]: "scannedCodes (initializeScanner_played b s) = scannedCodes s"
  by (simp add: initializeScanner_played_def Let_def)

lemma scannedCodes_play_retry [simp]: "scannedCodes (play_retry_timer r s) = scannedCodes s"
  by (simp add: play_retry_timer_def split: play_retry.splits)

lemma scannedCodes_startBarcodeScanning [simp]:
  "scannedCodes (startBarcodeScanning f s) = scannedCodes s"
  by (simp add: startBarcodeScanning_def Let_def split: option.splits)

lemma scannedCodes_decode_callback:
  "scannedCodes (decode_callback c a s) =
     (case a of
        Decoded t f \<Rightarrow> if isMountedRef s then add_scanned t (scannedCodes s) else scannedCodes s
      | Decode_error e \<Rightarrow> scannedCodes s
      | Nothing_decoded \<Rightarrow> scannedCodes s)"
  by (simp add: decode_callback_def Let_def split: decode_attempt.splits)

lemma scannedCodes_step_other:
  "\<not> changes_codes e \<Longrightarrow> scannedCodes (step e s) = scannedCodes s"
  by (cases e)
     (simp_all add: mount_def unmount_def render_def retryScanning_def retry_timer_def
       scanning_timer_def onLoadedData_def onError_def initializeScanner_loaded_def
       split: option.splits)

lemma run_keeps_codes:
  "\<forall>e\<in>set evs. \<not> changes_codes e \<Longrightarrow> scannedCodes (run evs s) = scannedCodes s"
  by (induction evs arbitrary: s) (simp_all add: scannedCodes_step_other del: step.simps)

lemma isMountedRef_decode_callback [simp]: "isMountedRef (decode_callback c a s) = isMountedRef s"
  by (simp add: decode_callback_def Let_def split: decode_attempt.splits)

lemma isMountedRef_cleanup [simp]: "isMountedRef (cleanup s) = isMountedRef s"
  by (simp add: cleanup_def cleanup_video_def cleanup_stream_def cleanup_reader_def Let_def
      split: option.splits)

lemma isMountedRef_catch [simp]: "isMountedRef (initializeScanner_catch e s) = isMountedRef s"
  by (simp add: initializeScanner_catch_def Let_def)

lemma isMountedRef_start [simp]: "isMountedRef (initializeScanner_start f s) = isMountedRef s"
  by (simp add: initializeScanner_start_def Let_def split: option.splits)

lemma isMountedRef_granted [simp]:
  "isMountedRef (initializeScanner_granted st b s) = isMountedRef s"
  by (simp add: initializeScanner_granted_def render_def Let_def split: option.splits)

lemma isMountedRef_played [simp]: "isMountedRef (initializeScanner_played b s) = isMountedRef s"
  by (simp add: initializeScanner_played_def Let_def)

lemma isMountedRef_play_retry [simp]: "isMountedRef (play_retry_timer r s) = isMountedRef s"
  by (simp add: play_retry_timer_def split: play_retry.splits)

lemma isMountedRef_startBarcodeScanning [simp]:
  "isMountedRef (startBarcodeScanning f s) = isMountedRef s"
  by (simp add: startBarcodeScanning_def Let_def split: option.splits)

lemma isMountedRef_unmount [simp]: "\<not> isMountedRef (unmount s)"
  by (simp add: unmount_def)

lemma isMountedRef_mount [simp]: "isMountedRef (mount f s)"
  by (simp add: mount_def)

lemma isMountedRef_step_other:
  "\<not> is_mount e \<Longrightarrow> e \<noteq> Unmount \<Longrightarrow> isMountedRef (step e s) = isMountedRef s"
  by (cases e)
     (simp_all add: render_def retryScanning_def retry_timer_def scanning_timer_def
       onLoadedData_def onError_def removeScannedCode_def initializeScanner_loaded_def
       split: option.splits)

lemma step_stays_mounted: "isMountedRef s \<Longrightarrow> e \<noteq> Unmount \<Longrightarrow> isMountedRef (step e s)"
  by (cases "is_mount e") (auto simp: isMountedRef_step_other elim: is_mount.elims)

lemma run_stays_mounted:
  "isMountedRef s \<Longrightarrow> \<forall>e\<in>set evs. e \<noteq> Unmount \<Longrightarrow> isMountedRef (run evs s)"
  by (induction evs arbitrary: s) (simp_all add: step_stays_mounted del: step.simps)

lemma step_stays_unmounted:
  "\<not> isMountedRef s \<Longrightarrow> \<not> is_mount e \<Longrightarrow> \<not> isMountedRef (step e s)"
  by (cases e)
     (simp_all add: render_def retryScanning_def retry_timer_def scanning_timer_def
       onLoadedData_def onError_def removeScannedCode_def initializeScanner_loaded_def
       split: option.splits)

lemma run_stays_unmounted:
  "\<not> isMountedRef s \<Longrightarrow> \<forall>e\<in>set evs. \<not> is_mount e \<Longrightarrow> \<not> isMountedRef (run evs s)"
  by (induction evs arbitrary: s) (simp_all add: step_stays_unmounted del: step.simps)

lemma run_append: "run (xs @ ys) s = run ys (run xs s)"
  by (induction xs arbitrary: s) simp_all

section \<open>The list of scanned codes\<close>






lemma first_seen_set [simp]: "set (first_seen xs) = set xs"
  by (induction xs) auto

lemma first_seen_distinct [simp]: "distinct (first_seen xs)"
  by (induction xs) auto

text \<open>
  Deliveries to a mounted component, from any list: the texts not yet in the list are
  added behind it in the order of their first delivery.
\<close>

lemma run_deliveries_codes:
  "isMountedRef s \<Longrightarrow>
   scannedCodes (run (deliveries as) s) =
     scannedCodes s @ filter (\<lambda>t. t \<notin> set (scannedCodes s)) (first_seen (decoded_texts (map snd as)))"
proof (induction as arbitrary: s)
  case Nil
  then show ?case by (simp add: deliveries_def)
next
  case (Cons p as)
  obtain c a where p: "p = (c, a)" by (cases p)
  have m: "isMountedRef (decode_callback c a s)" using Cons.prems by simp
  have IH: "scannedCodes (run (deliveries as) (decode_callback c a s)) =
     scannedCodes (decode_callback c a s) @
       filter (\<lambda>t. t \<notin> set (scannedCodes (decode_callback c a s)))
         (first_seen (decoded_texts (map snd as)))"
    using Cons.IH [OF m] .
  have r: "run (deliveries (p # as)) s = run (deliveries as) (decode_callback c a s)"
    by (simp add: deliveries_def p)
  show ?case
  proof (cases a)
    case (Decoded t f)
    have sc: "scannedCodes (decode_callback c a s) = add_scanned t (scannedCodes s)"
      using Cons.prems Decoded by (simp add: scannedCodes_decode_callback)
    show ?thesis
      unfolding r IH sc using Decoded p
      by (auto simp: add_scanned_def filter_id_conv intro: filter_cong)
  next
    case (Decode_error e)
    then show ?thesis unfolding r IH using p by (simp add: scannedCodes_decode_callback)
  next
    case Nothing_decoded
    then show ?thesis unfolding r IH using p by (simp add: scannedCodes_decode_callback)
  qed
qed

lemma initial_mounted: "isMountedRef initial"
  by (simp add: initial_def)

lemma initial_no_codes: "scannedCodes initial = []"
  by (simp add: initial_def)

text \<open>
  Claim C2. For every sequence of decode attempts delivered to the callback of a mounted
  component that starts with no scanned code, \<open>scannedCodes\<close> holds no text twice, and
  it holds exactly the decoded texts, each once, in the order in which they were first
  seen.
\<close>

theorem scanned_codes_first_seen:
  assumes "isMountedRef s" and "scannedCodes s = []"
  shows "scannedCodes (run (deliveries as) s) = first_seen (decoded_texts (map snd as))
       \<and> distinct (scannedCodes (run (deliveries as) s))
       \<and> set (scannedCodes (run (deliveries as) s)) = set (decoded_texts (map snd as))"
  using run_deliveries_codes [OF assms(1), of as] assms(2) by simp

theorem scanned_codes_first_seen_witness:
  "isMountedRef initial \<and> scannedCodes initial = []
   \<and> scannedCodes (run (deliveries [(0, Decoded ''123'' 1), (0, Decoded ''123'' 1),
        (0, Nothing_decoded), (0, Decoded ''456'' 1)]) initial) = [''123'', ''456'']"
  using scanned_codes_first_seen [OF initial_mounted initial_no_codes,
      of "[(0, Decoded ''123'' 1), (0, Decoded ''123'' 1), (0, Nothing_decoded), (0, Decoded ''456'' 1)]"]
    initial_mounted initial_no_codes
  by simp

subsection \<open>A session that has scanned one code\<close>


lemma session_with_one_code_started:
  "readers_started (run (butlast session_with_one_code) initial) = [0]
   \<and> map_option srcObject (videoRef (run (butlast session_with_one_code) initial)) = Some (Some 1)"
  by (simp add: session_with_one_code_def initial_def handler_defs initializeScanner_played_def
      startBarcodeScanning_def new_video_def)


subsection \<open>A text that is present\<close>






subsection \<open>Retry\<close>

lemma session_with_code_and_denial_mounted:
  "isMountedRef (run session_with_code_and_denial initial)"
  using run_stays_mounted [of initial session_with_code_and_denial]
  by (simp add: initial_def session_with_code_and_denial_def del: run.simps)

lemma session_with_code_and_denial_state:
  "hasPermission (run session_with_code_and_denial initial) = Some False
   \<and> error (run session_with_code_and_denial initial)
       = ''Camera initialization failed: NotReadableError''
   \<and> readers_started (run session_with_code_and_denial initial) = [2]
   \<and> scannedCodes (run session_with_code_and_denial initial) = [''123'']"
  by (simp add: session_with_code_and_denial_def initial_def handler_defs
      initializeScanner_played_def startBarcodeScanning_def decode_callback_def add_scanned_def
      new_video_def)

text \<open>
  Claim C4, as stated: after a retry the list of scanned codes is empty. It fails: in
  the session that has scanned \<open>123\<close> and then shows the retry control (permission is
  false), the user retries, the timer restarts the scanner and the camera is granted
  again, and \<open>123\<close> is still in the list.
\<close>

theorem retry_does_not_empty_scanned_codes:
  "hasPermission (run session_with_code_and_denial initial) = Some False
   \<and> scannedCodes (run session_with_code_and_denial initial) = [''123'']
   \<and> scannedCodes (run [Retry_click, Retry_timer None, Granted 2 True]
        (run session_with_code_and_denial initial)) = [''123'']"
  using session_with_code_and_denial_state
    run_keeps_codes [of "[Retry_click, Retry_timer None, Granted 2 True]"
      "run session_with_code_and_denial initial"]
  by (simp del: run.simps)

text \<open>
  Claim C4, amended. A retry keeps the list of scanned codes. After \<^verbatim>\<open>retryScanning\<close>,
  the timer that calls \<^verbatim>\<open>initializeScanner\<close> again, and whatever the restart does
  while the component stays mounted, \<open>scannedCodes\<close> is what it was before the retry;
  and the decode results delivered after the restart are added to that list: each text
  that was not in it is appended once, in the order of first delivery.
\<close>

theorem retry_keeps_scanned_codes:
  assumes "isMountedRef s"
    and "\<forall>e\<in>set pre. \<not> changes_codes e \<and> e \<noteq> Unmount"
    and "\<forall>e\<in>set evs. \<not> changes_codes e \<and> e \<noteq> Unmount"
  shows "scannedCodes (run (Retry_click # pre @ Retry_timer f # evs) s) = scannedCodes s
       \<and> scannedCodes (run ((Retry_click # pre @ Retry_timer f # evs) @ deliveries as) s)
           = scannedCodes s
             @ filter (\<lambda>t. t \<notin> set (scannedCodes s)) (first_seen (decoded_texts (map snd as)))"
proof -
  let ?r = "Retry_click # pre @ Retry_timer f # evs"
  have n: "\<forall>e\<in>set ?r. \<not> changes_codes e" using assms(2,3) by auto
  have u: "\<forall>e\<in>set ?r. e \<noteq> Unmount" using assms(2,3) by auto
  have c: "scannedCodes (run ?r s) = scannedCodes s" using run_keeps_codes [OF n] .
  have m: "isMountedRef (run ?r s)" using run_stays_mounted [OF assms(1) u] .
  have "scannedCodes (run (?r @ deliveries as) s) = scannedCodes (run (deliveries as) (run ?r s))"
    by (simp only: run_append)
  also have "\<dots> = scannedCodes (run ?r s)
      @ filter (\<lambda>t. t \<notin> set (scannedCodes (run ?r s))) (first_seen (decoded_texts (map snd as)))"
    using run_deliveries_codes [OF m] .
  finally show ?thesis using c by simp
qed

theorem retry_keeps_scanned_codes_witness:
  "isMountedRef (run session_with_code_and_denial initial)
   \<and> scannedCodes (run session_with_code_and_denial initial) = [''123'']
   \<and> scannedCodes (run ((Retry_click # [Render] @ Retry_timer None
          # [Granted 2 True, Video_loaded, Played True, Scanning_timer None])
        @ deliveries [(0, Decoded ''123'' 1), (0, Decoded ''456'' 1)])
        (run session_with_code_and_denial initial)) = [''123'', ''456'']"
proof -
  have 1: "\<forall>e\<in>set [Render]. \<not> changes_codes e \<and> e \<noteq> Unmount" by simp
  have 2: "\<forall>e\<in>set [Granted 2 True, Video_loaded, Played True, Scanning_timer None].
             \<not> changes_codes e \<and> e \<noteq> Unmount" by simp
  from retry_keeps_scanned_codes [OF session_with_code_and_denial_mounted 1 2, of None
      "[(0, Decoded ''123'' 1), (0, Decoded ''456'' 1)]"]
    session_with_code_and_denial_mounted session_with_code_and_denial_state
  show ?thesis by simp
qed

section \<open>After the component is removed\<close>

lemma torn_down_unmount: "torn_down (unmount s)"
  by (simp add: torn_down_def unmount_def cleanup_def cleanup_video_def cleanup_stream_def
      cleanup_reader_def Let_def split: option.splits)

lemma cleanup_torn_down: "torn_down s \<Longrightarrow> cleanup s = s"
  by (simp add: torn_down_def cleanup_def cleanup_video_def cleanup_stream_def
      cleanup_reader_def Let_def)

lemma call_torn_down: "torn_down s \<Longrightarrow> call c s = (Returned, s)"
  by (cases c)
     (simp_all add: cleanup_torn_down retryScanning_def,
      simp_all add: torn_down_def initializeScanner_start_def decode_callback_def)

lemma calls_torn_down: "torn_down s \<Longrightarrow> calls cs s = s"
  by (induction cs) (simp_all add: call_torn_down)

lemma unmount_initial_error: "error (unmount initial) = []"
  by (simp add: unmount_def initial_def cleanup_def cleanup_video_def cleanup_stream_def
      cleanup_reader_def Let_def)

text \<open>
  Claim C6, as stated: an operation invoked after the component was disposed of fails
  with an error. It fails: \<^verbatim>\<open>initializeScanner\<close> called on the unmounted component
  returns normally, and no error message is set either.
\<close>

theorem start_after_unmount_returns:
  "fst (call (Start None) (unmount initial)) = Returned
   \<and> error (snd (call (Start None) (unmount initial))) = []"
  using call_torn_down [OF torn_down_unmount, of "Start None" initial] unmount_initial_error
  by simp

text \<open>
  Claim C6, amended. After the component was unmounted, every call of
  \<^verbatim>\<open>initializeScanner\<close>, \<^verbatim>\<open>cleanup\<close>, \<^verbatim>\<open>retryScanning\<close> (and the timer it sets) or
  the decode callback returns normally without raising anything, and any sequence of
  such calls leaves the whole state as the unmount left it.
\<close>

theorem calls_after_unmount_do_nothing:
  "fst (call c (unmount s)) = Returned \<and> calls cs (unmount s) = unmount s
   \<and> retry_timer f (unmount s) = unmount s"
  using call_torn_down [OF torn_down_unmount, of c s] calls_torn_down [OF torn_down_unmount, of cs s]
  by (simp add: retry_timer_def)

theorem calls_after_unmount_do_nothing_witness:
  "calls [Start None, Stop, Retry, Deliver 0 (Decoded ''123'' 1), Start None]
     (unmount (run session_with_one_code initial)) = unmount (run session_with_one_code initial)
   \<and> fst (call (Deliver 0 (Decoded ''123'' 1)) (unmount (run session_with_one_code initial))) = Returned"
  using calls_after_unmount_do_nothing [of "Deliver 0 (Decoded ''123'' 1)" "run session_with_one_code initial"
      "[Start None, Stop, Retry, Deliver 0 (Decoded ''123'' 1), Start None]" None]
  by simp

text \<open>
  Claim C7. The component is unmounted while a camera request is pending; whatever
  runs afterwards (the component is not mounted again), when the request resolves with
  a stream the only change is that the tracks of that stream are stopped: the stream is
  not stored, not attached to the video element, and no state of the component changes.
\<close>

theorem late_stream_stopped_after_unmount:
  assumes "\<forall>e\<in>set late. \<not> is_mount e"
  shows "step (Granted strm sync) (run late (unmount s)) =
           (run late (unmount s))\<lparr>stopped := stopped (run late (unmount s)) @ [strm]\<rparr>"
proof -
  have "\<not> isMountedRef (run late (unmount s))"
    using run_stays_unmounted [OF isMountedRef_unmount assms] .
  then show ?thesis by (simp add: initializeScanner_granted_def)
qed

lemma pending_then_unmounted:
  "stopped (run [Decode 0 Nothing_decoded] (unmount (step (Mount None) initial))) = []
   \<and> streamRef (run [Decode 0 Nothing_decoded] (unmount (step (Mount None) initial))) = None
   \<and> videoRef (run [Decode 0 Nothing_decoded] (unmount (step (Mount None) initial))) = None"
  by (simp add: unmount_def mount_def initial_def initializeScanner_start_def decode_callback_def
      cleanup_def cleanup_video_def cleanup_stream_def cleanup_reader_def append_debug_def Let_def)

theorem late_stream_stopped_after_unmount_witness:
  "stopped (step (Granted 5 True) (run [Decode 0 Nothing_decoded] (unmount (step (Mount None) initial)))) = [5]
   \<and> streamRef (step (Granted 5 True) (run [Decode 0 Nothing_decoded] (unmount (step (Mount None) initial)))) = None
   \<and> videoRef (step (Granted 5 True) (run [Decode 0 Nothing_decoded] (unmount (step (Mount None) initial)))) = None"
proof -
  have "\<forall>e\<in>set [Decode 0 Nothing_decoded]. \<not> is_mount e" by simp
  from late_stream_stopped_after_unmount [OF this, of 5 True "step (Mount None) initial"]
  show ?thesis using pending_then_unmounted by (simp del: step.simps run.simps)
qed

section \<open>Streams that are granted\<close>

text \<open>
  Within one call the granted stream is accounted for: from the moment the request
  resolves, and as long as no other call's request resolves, the stream is either
  stopped or held in \<open>streamRef\<close>.
\<close>

lemma settled_granted: "settled strm (step (Granted strm sync) s)"
  by (simp add: settled_def initializeScanner_granted_def render_def append_debug_def Let_def
      split: option.splits)

lemma settled_step: "settled strm s \<Longrightarrow> \<not> is_granted e \<Longrightarrow> settled strm (step e s)"
  by (cases e)
     (auto simp: settled_def handler_defs initializeScanner_played_def play_retry_timer_def
       startBarcodeScanning_def decode_callback_def removeScannedCode_def onLoadedData_def
       onError_def
       split: option.splits play_retry.splits decode_attempt.splits)

lemma settled_run:
  "settled strm s \<Longrightarrow> \<forall>e\<in>set evs. \<not> is_granted e \<Longrightarrow> settled strm (run evs s)"
  by (induction evs arbitrary: s) (simp_all add: settled_step del: step.simps)

text \<open>
  Two overlapping calls under a root that batches updates: no video element is attached
  when the requests resolve, each call ends at once, and the second stream replaces the
  first all the same.
\<close>

lemma overlapping_retries_batched:
  "streamRef (run [Mount None, Denied (Error ''Permission dismissed''), Render, Retry_click,
      Retry_timer None, Retry_click, Retry_timer None, Granted 1 False, Granted 2 False] initial)
     = Some 2
   \<and> stopped (run [Mount None, Denied (Error ''Permission dismissed''), Render, Retry_click,
      Retry_timer None, Retry_click, Retry_timer None, Granted 1 False, Granted 2 False] initial)
     = []"
  by (simp add: initial_def handler_defs)

text \<open>
  Claim C9. The claim asks that no granted stream is lost on any exit of
  \<^verbatim>\<open>initializeScanner\<close>. The code loses one when two calls overlap: \<^verbatim>\<open>cleanup\<close>
  lowers \<open>isInitializedRef\<close> while a request is pending, the retry timer starts a second
  call, and when both requests are granted the second stream replaces the first in
  \<open>streamRef\<close> and in the video element. Three requests were issued; when the call that
  received stream 1 has run to its end, stream 1 is neither stopped nor held, and the
  final clean-up stops stream 2 only.
\<close>

theorem overlapping_retries_leak_stream:
  "streamRef (run overlapping_retries initial) = Some 2
   \<and> map_option srcObject (videoRef (run overlapping_retries initial)) = Some (Some 2)
   \<and> stopped (run overlapping_retries initial) = []
   \<and> length (camera_requests (run overlapping_retries initial)) = 3
   \<and> stopped (run (overlapping_retries @ [Unmount]) initial) = [2]"
  by (simp add: overlapping_retries_def initial_def handler_defs initializeScanner_played_def
      new_video_def)

theorem overlapping_retries_leak_stream_witness:
  "\<not> settled 1 (run overlapping_retries initial)"
  using overlapping_retries_leak_stream by (simp add: settled_def)

section \<open>Acquisition over the fallback profiles\<close>

lemma try_options_success:
  "k < length opts \<Longrightarrow> camera env (i + k) (opts ! k) = Inr strm \<Longrightarrow>
   \<forall>j<k. \<exists>err. camera env (i + j) (opts ! j) = Inl err \<Longrightarrow>
   granted_stream (try_options env i opts a) = Some strm
   \<and> attempted (try_options env i opts a) = attempted a @ take (Suc k) opts"
proof (induction opts arbitrary: i k a)
  case Nil
  then show ?case by simp
next
  case (Cons c cs)
  show ?case
  proof (cases k)
    case 0
    with Cons.prems(2) show ?thesis by (simp add: Let_def)
  next
    case (Suc k')
    from Cons.prems(3) Suc obtain err where e: "camera env i c = Inl err" by force
    have 1: "k' < length cs" using Cons.prems(1) Suc by simp
    have 2: "camera env (Suc i + k') (cs ! k') = Inr strm" using Cons.prems(2) Suc by simp
    have 3: "\<forall>j<k'. \<exists>err. camera env (Suc i + j) (cs ! j) = Inl err"
    proof (intro allI impI)
      fix j assume "j < k'"
      then have "Suc j < k" using Suc by simp
      with Cons.prems(3) have "\<exists>err. camera env (i + Suc j) ((c # cs) ! Suc j) = Inl err" by blast
      then show "\<exists>err. camera env (Suc i + j) (cs ! j) = Inl err" by simp
    qed
    show ?thesis using Cons.IH [OF 1 2 3] e Suc by (simp add: Let_def)
  qed
qed

lemma constraintOptions_length: "length constraintOptions = 4"
  by (simp add: constraintOptions_def)

text \<open>
  Claim C1. For every list of constraint profiles: when the request for the profile at
  position \<open>k\<close> is the first that is granted, the acquisition has requested exactly the
  profiles up to position \<open>k\<close>, in their order, and none after it, and it ends with the
  stream granted for that profile.
\<close>

theorem first_granted_profile_ends_acquisition:
  assumes "isSecureContext env" and "mediaDevices env"
    and "k < length opts" and "camera env k (opts ! k) = Inr strm"
    and "\<forall>j<k. \<exists>err. camera env j (opts ! j) = Inl err"
  shows "\<exists>a. acquire env opts s = Inr a \<and> granted_stream a = Some strm
           \<and> attempted a = take (Suc k) opts"
proof -
  let ?s1 = "append_debug ''Requesting camera permission...'' (s\<lparr>cameraStatus := requesting\<rparr>)"
  from try_options_success [of k opts env 0 strm "begin_acquisition ?s1"] assms(3-5)
  have "granted_stream (try_options env 0 opts (begin_acquisition ?s1)) = Some strm
      \<and> attempted (try_options env 0 opts (begin_acquisition ?s1)) = take (Suc k) opts"
    by (simp add: begin_acquisition_def)
  then show ?thesis using assms(1,2) by (simp add: acquire_def Let_def)
qed

theorem first_granted_profile_ends_acquisition_witness:
  "isSecureContext second_profile_granted \<and> mediaDevices second_profile_granted
   \<and> camera second_profile_granted 0 (constraintOptions ! 0) = Inl (Error ''OverconstrainedError'')
   \<and> camera second_profile_granted 1 (constraintOptions ! 1) = Inr 7
   \<and> (\<exists>a. acquire second_profile_granted constraintOptions initial = Inr a
        \<and> granted_stream a = Some 7 \<and> attempted a = take 2 constraintOptions)"
proof -
  have 1: "isSecureContext second_profile_granted" and 2: "mediaDevices second_profile_granted"
    by (simp_all add: second_profile_granted_def)
  have 3: "1 < length constraintOptions" by (simp add: constraintOptions_length)
  have 4: "camera second_profile_granted 1 (constraintOptions ! 1) = Inr 7"
    by (simp add: second_profile_granted_def)
  have 5: "\<forall>j<1. \<exists>err. camera second_profile_granted j (constraintOptions ! j) = Inl err"
    by (simp add: second_profile_granted_def)
  have 6: "camera second_profile_granted 0 (constraintOptions ! 0) = Inl (Error ''OverconstrainedError'')"
    by (simp add: second_profile_granted_def)
  from first_granted_profile_ends_acquisition [OF 1 2 3 4 5, of initial] 1 2 4 6
  show ?thesis by (simp add: numeral_2_eq_2)
qed

lemma try_options_all_fail:
  "opts \<noteq> [] \<Longrightarrow> granted_stream a = None \<Longrightarrow>
   \<forall>j<length opts. \<exists>err. camera env (i + j) (opts ! j) = Inl err \<Longrightarrow>
   camera env (i + (length opts - 1)) (last opts) = Inl e \<Longrightarrow>
   granted_stream (try_options env i opts a) = None
   \<and> lastError (try_options env i opts a) = Some e
   \<and> attempted (try_options env i opts a) = attempted a @ opts"
proof (induction opts arbitrary: i a)
  case Nil
  then show ?case by simp
next
  case (Cons c cs)
  from Cons.prems(3) obtain err where err: "camera env i c = Inl err" by force
  show ?case
  proof (cases "cs = []")
    case True
    with Cons.prems err show ?thesis by (simp add: Let_def)
  next
    case False
    have 3: "\<forall>j<length cs. \<exists>err. camera env (Suc i + j) (cs ! j) = Inl err"
    proof (intro allI impI)
      fix j assume "j < length cs"
      then have "Suc j < length (c # cs)" by simp
      with Cons.prems(3) have "\<exists>err. camera env (i + Suc j) ((c # cs) ! Suc j) = Inl err" by blast
      then show "\<exists>err. camera env (Suc i + j) (cs ! j) = Inl err" by simp
    qed
    have 4: "camera env (Suc i + (length cs - 1)) (last cs) = Inl e"
      using Cons.prems(4) False by (cases cs) simp_all
    let ?a = "a\<lparr>comp := append_debug (''Trying camera option '' @ show_nat (i + 1) @ ''...'') (comp a)\<rparr>"
    let ?b = "?a\<lparr>attempted := attempted ?a @ [c], comp := between env i (comp ?a)\<rparr>"
    let ?c = "?b\<lparr>lastError := Some err,
                   comp := append_debug
                     (''Camera option '' @ show_nat (i + 1) @ '' failed: '' @ message err) (comp ?b)\<rparr>"
    have g: "granted_stream ?c = None" using Cons.prems(2) by simp
    from Cons.IH [OF False g 3 4] err show ?thesis by (simp add: Let_def)
  qed
qed


text \<open>
  Claim C3. When the list of profiles is not empty and the request for every profile is
  rejected, the acquisition has requested all of them and throws the error with which
  the request for the last profile was rejected.
\<close>

theorem all_profiles_fail_with_last_error:
  assumes "isSecureContext env" and "mediaDevices env" and "opts \<noteq> []"
    and "\<forall>j<length opts. \<exists>err. camera env j (opts ! j) = Inl err"
    and "camera env (length opts - 1) (last opts) = Inl e"
  shows "\<exists>a. acquire env opts s = Inl (e, a) \<and> attempted a = opts \<and> granted_stream a = None"
proof -
  let ?s1 = "append_debug ''Requesting camera permission...'' (s\<lparr>cameraStatus := requesting\<rparr>)"
  have "granted_stream (begin_acquisition ?s1) = None" by (simp add: begin_acquisition_def)
  from try_options_all_fail [OF assms(3) this, of env 0 e] assms(4,5)
  have "granted_stream (try_options env 0 opts (begin_acquisition ?s1)) = None
   \<and> lastError (try_options env 0 opts (begin_acquisition ?s1)) = Some e
   \<and> attempted (try_options env 0 opts (begin_acquisition ?s1)) = opts"
    by (simp add: begin_acquisition_def)
  then show ?thesis using assms(1,2) by (simp add: acquire_def Let_def)
qed

theorem all_profiles_fail_with_last_error_witness:
  "isSecureContext no_camera \<and> mediaDevices no_camera \<and> constraintOptions \<noteq> []
   \<and> camera no_camera 3 (last constraintOptions) = Inl (Error ''NotFoundError 3'')
   \<and> (\<exists>a. acquire no_camera constraintOptions initial = Inl (Error ''NotFoundError 3'', a)
        \<and> attempted a = constraintOptions \<and> granted_stream a = None)"
proof -
  have 1: "isSecureContext no_camera" and 2: "mediaDevices no_camera"
    by (simp_all add: no_camera_def)
  have 3: "constraintOptions \<noteq> []" by (simp add: constraintOptions_def)
  have 4: "\<forall>j<length constraintOptions. \<exists>err. camera no_camera j (constraintOptions ! j) = Inl err"
    by (simp add: no_camera_def)
  have 5: "camera no_camera (length constraintOptions - 1) (last constraintOptions)
             = Inl (Error ''NotFoundError 3'')"
    by (simp add: no_camera_def constraintOptions_length digit_char_def)
  from all_profiles_fail_with_last_error [OF 1 2 3 4 5, of initial] 1 2 3 5
  show ?thesis by (simp add: constraintOptions_length)
qed

text \<open>
  Claim C8, as stated: without the camera API the start fails with the error for the
  unsupported environment. It fails where the context is not secure either: the check
  of the context comes first, and the failure is the one for the insecure context.
\<close>

theorem insecure_context_reported_without_api:
  "\<not> mediaDevices insecure_without_api
   \<and> acquire insecure_without_api constraintOptions initial
       = Inl (Error ''Camera requires HTTPS connection'', begin_acquisition initial)
   \<and> error (comp (initializeScanner_fallback insecure_without_api initial))
       = ''Camera initialization failed: Camera requires HTTPS connection''"
  by (simp add: insecure_without_api_def acquire_def initializeScanner_fallback_def
      initializeScanner_with_def fallback_catch_def begin_acquisition_def initial_def
      append_debug_def Let_def)

text \<open>
  Claim C8, amended. In the variant of the component with fallback profiles, a start
  that passes the guard of \<^verbatim>\<open>initializeScanner\<close> fails at once and without any camera
  request: with the error for the insecure context when the context is not secure,
  whether or not the camera API exists; and with the error for the missing camera API
  when the context is secure and the API is missing. The single-profile variant makes
  neither check: where the camera API exists it issues its camera request, secure
  context or not; where it is missing, the start fails at once, without a request, with
  the exception that the call raises.
\<close>

theorem environment_checks_before_any_request:
  assumes "\<not> isInitializedRef s" and "isMountedRef s"
  shows "(\<not> isSecureContext env \<longrightarrow>
            attempted (initializeScanner_with env opts s) = []
          \<and> granted_stream (initializeScanner_with env opts s) = None
          \<and> error (comp (initializeScanner_with env opts s))
              = ''Camera initialization failed: Camera requires HTTPS connection''
          \<and> cameraStatus (comp (initializeScanner_with env opts s)) = status_error)
       \<and> (isSecureContext env \<and> \<not> mediaDevices env \<longrightarrow>
            attempted (initializeScanner_with env opts s) = []
          \<and> granted_stream (initializeScanner_with env opts s) = None
          \<and> error (comp (initializeScanner_with env opts s))
              = ''Camera initialization failed: Camera API not available in this browser''
          \<and> cameraStatus (comp (initializeScanner_with env opts s)) = status_error)
       \<and> (mediaDevices env \<longrightarrow>
            camera_requests (initializeScanner_single env type_err s)
              = camera_requests s @ [constraints]
          \<and> error (initializeScanner_single env type_err s) = [])
       \<and> (\<not> mediaDevices env \<longrightarrow>
            camera_requests (initializeScanner_single env type_err s) = camera_requests s
          \<and> error (initializeScanner_single env type_err s)
              = ''Camera initialization failed: '' @ message type_err)"
  using assms
  by (simp add: acquire_def initializeScanner_with_def fallback_catch_def begin_acquisition_def
      initializeScanner_single_def initializeScanner_start_def initializeScanner_catch_def
      append_debug_def Let_def)

theorem environment_checks_before_any_request_witness:
  "\<not> isInitializedRef initial \<and> isMountedRef initial
   \<and> isSecureContext secure_without_api \<and> \<not> mediaDevices secure_without_api
   \<and> attempted (initializeScanner_with secure_without_api constraintOptions initial) = []
   \<and> error (comp (initializeScanner_with secure_without_api constraintOptions initial))
       = ''Camera initialization failed: Camera API not available in this browser''
   \<and> camera_requests (initializeScanner_single secure_without_api
        (Error ''navigator.mediaDevices is undefined'') initial) = []
   \<and> error (initializeScanner_single secure_without_api
        (Error ''navigator.mediaDevices is undefined'') initial)
       = ''Camera initialization failed: navigator.mediaDevices is undefined''
   \<and> mediaDevices second_profile_granted
   \<and> camera_requests (initializeScanner_single second_profile_granted
        (Error ''navigator.mediaDevices is undefined'') initial) = [constraints]"
proof -
  have 1: "\<not> isInitializedRef initial" and 2: "isMountedRef initial"
    by (simp_all add: initial_def)
  have 3: "isSecureContext secure_without_api \<and> \<not> mediaDevices secure_without_api"
    by (simp add: secure_without_api_def)
  have 4: "mediaDevices second_profile_granted" by (simp add: second_profile_granted_def)
  have 5: "camera_requests initial = []" by (simp add: initial_def)
  from environment_checks_before_any_request [OF 1 2, of secure_without_api constraintOptions
      "Error ''navigator.mediaDevices is undefined''"]
    environment_checks_before_any_request [OF 1 2, of second_profile_granted constraintOptions
      "Error ''navigator.mediaDevices is undefined''"]
    1 2 3 4 5
  show ?thesis by simp
qed

section \<open>The response of the HTTP trigger\<close>

lemma has_key_iff: "map_of (rev kvs) k = None \<longleftrightarrow> k \<notin> fst ` set kvs"
  by (simp add: map_of_eq_None_iff)

lemma barcode_truthy_iff:
  "truthy ops b \<and> truthy ops (get_prop b ''barcode'')
     \<longleftrightarrow> has_barcode_field b \<and> truthy ops (get_prop b ''barcode'')"
proof (cases b)
  case (Object kvs)
  show ?thesis
  proof (cases "map_of (rev kvs) ''barcode''")
    case None
    with Object show ?thesis by simp
  next
    case (Some v)
    then have "''barcode'' \<in> fst ` set kvs" using has_key_iff [of kvs "''barcode''"] by simp
    with Object show ?thesis by simp
  qed
qed simp_all

lemma join_elements_Cons:
  "(\<exists>t. join_elements ops (x # xs) = Inr t)
     \<longleftrightarrow> (\<exists>t. to_string ops x = Inr t) \<and> (\<exists>t. join_elements ops xs = Inr t)"
proof (cases xs)
  case Nil
  then show ?thesis by (cases x) (auto split: sum.splits)
next
  case (Cons y ys)
  then show ?thesis by (cases x) (auto split: sum.splits)
qed

lemma join_elements_ok:
  "(\<exists>t. join_elements ops xs = Inr t) \<longleftrightarrow> (\<forall>x\<in>set xs. \<exists>t. to_string ops x = Inr t)"
proof (induction xs)
  case Nil
  show ?case by simp
next
  case (Cons x xs)
  show ?case using join_elements_Cons [of ops x xs] Cons.IH by simp
qed

lemma converts_iff: "converts v \<longleftrightarrow> (\<exists>t. to_string ops v = Inr t)"
proof (induction v)
  case (Array xs)
  then show ?case by (simp add: join_elements_ok list_all_iff)
qed simp_all

lemma join_elements_error:
  "\<forall>x\<in>set xs. \<forall>e. to_string ops x = Inl e \<longrightarrow> e = type_error \<Longrightarrow>
   join_elements ops xs = Inl e \<Longrightarrow> e = type_error"
proof (induction xs)
  case Nil
  then show ?case by simp
next
  case (Cons x xs)
  then show ?case
    by (cases x) (auto split: sum.splits if_splits)
qed

lemma to_string_error: "to_string ops v = Inl e \<Longrightarrow> e = type_error"
proof (induction v arbitrary: e)
  case (Array xs)
  then show ?case using join_elements_error [of xs ops e] by auto
next
  case (Object kvs)
  then show ?case by (simp split: if_splits)
qed simp_all

lemma not_converts_throws: "\<not> converts v \<Longrightarrow> to_string ops v = Inl type_error"
proof -
  assume "\<not> converts v"
  then have "\<nexists>t. to_string ops v = Inr t" using converts_iff [of v ops] by simp
  then obtain e where "to_string ops v = Inl e" by (cases "to_string ops v") auto
  then show ?thesis using to_string_error by blast
qed

text \<open>
  Claim C10, as stated: the response is 400 exactly when the body is absent or has no
  barcode field. It fails: a body whose barcode field holds the empty string has the
  field and gets the response 400.
\<close>

theorem empty_barcode_rejected:
  "has_barcode_field (Object [(''barcode'', String [])] :: 53 word js_value)
   \<and> http_trigger small_naturals (Object [(''barcode'', String [])])
       = Inr \<lparr>status = 400, body = ''Please pass barcode in request body''\<rparr>"
  by (simp add: http_trigger_def)

text \<open>
  Claim C10, amended. What the handler does is a function of the request body. It
  responds with status 400 and the text asking for a barcode exactly when the body has
  no barcode field or the value of the field is falsy (\<^verbatim>\<open>null\<close>, \<^verbatim>\<open>false\<close>, a zero,
  NaN or the empty string). Otherwise, when the value can be converted to a string, it
  responds with status 200 and \<^verbatim>\<open>Received barcode: \<close> followed by that string; and
  when it cannot (an object with a key \<^verbatim>\<open>toString\<close> of its own, by itself or inside an
  array), the handler throws the \<^verbatim>\<open>TypeError\<close> and assigns no response.
\<close>

theorem http_trigger_response:
  "(http_trigger ops b = Inr \<lparr>status = 400, body = ''Please pass barcode in request body''\<rparr>
      \<longleftrightarrow> \<not> has_barcode_field b \<or> \<not> truthy ops (get_prop b ''barcode''))
   \<and> (has_barcode_field b \<and> truthy ops (get_prop b ''barcode'')
        \<and> converts (get_prop b ''barcode'') \<longrightarrow>
        (\<exists>t. to_string ops (get_prop b ''barcode'') = Inr t
           \<and> http_trigger ops b = Inr \<lparr>status = 200, body = ''Received barcode: '' @ t\<rparr>))
   \<and> (has_barcode_field b \<and> truthy ops (get_prop b ''barcode'')
        \<and> \<not> converts (get_prop b ''barcode'') \<longrightarrow>
        http_trigger ops b = Inl type_error)"
proof (intro conjI impI)
  show "http_trigger ops b = Inr \<lparr>status = 400, body = ''Please pass barcode in request body''\<rparr>
      \<longleftrightarrow> \<not> has_barcode_field b \<or> \<not> truthy ops (get_prop b ''barcode'')"
    using barcode_truthy_iff [of ops b] by (auto simp: http_trigger_def split: sum.splits)
next
  assume a: "has_barcode_field b \<and> truthy ops (get_prop b ''barcode'')
        \<and> converts (get_prop b ''barcode'')"
  then obtain t where t: "to_string ops (get_prop b ''barcode'') = Inr t"
    using converts_iff [of "get_prop b ''barcode''" ops] by auto
  have "truthy ops b" using a barcode_truthy_iff [of ops b] by simp
  with a t show "\<exists>t. to_string ops (get_prop b ''barcode'') = Inr t
           \<and> http_trigger ops b = Inr \<lparr>status = 200, body = ''Received barcode: '' @ t\<rparr>"
    by (simp add: http_trigger_def)
next
  assume a: "has_barcode_field b \<and> truthy ops (get_prop b ''barcode'')
        \<and> \<not> converts (get_prop b ''barcode'')"
  have "truthy ops b" using a barcode_truthy_iff [of ops b] by simp
  with a not_converts_throws [of "get_prop b ''barcode''" ops]
  show "http_trigger ops b = Inl type_error" by (simp add: http_trigger_def)
qed

theorem http_trigger_response_witness:
  "http_trigger small_naturals (Object [(''barcode'', String ''4006381333931'')])
       = Inr \<lparr>status = 200, body = ''Received barcode: 4006381333931''\<rparr>
   \<and> http_trigger small_naturals (Object [(''barcode'', Number 42)])
       = Inr \<lparr>status = 200, body = ''Received barcode: 42''\<rparr>
   \<and> http_trigger small_naturals (Object [(''barcode'', Array [Number 1, Null, String ''a''])])
       = Inr \<lparr>status = 200, body = ''Received barcode: 1,,a''\<rparr>
   \<and> http_trigger small_naturals (Object [(''barcode'', Object [(''toString'', Number 1)])])
       = Inl type_error
   \<and> http_trigger small_naturals (Object [(''barcode'', Number 0)])
       = Inr \<lparr>status = 400, body = ''Please pass barcode in request body''\<rparr>
   \<and> http_trigger small_naturals Undefined
       = Inr \<lparr>status = 400, body = ''Please pass barcode in request body''\<rparr>"
  using http_trigger_response [of small_naturals "Object [(''barcode'', String ''4006381333931'')]"]
        http_trigger_response [of small_naturals "Object [(''barcode'', Number 42)]"]
        http_trigger_response [of small_naturals
          "Object [(''barcode'', Array [Number 1, Null, String ''a''])]"]
        http_trigger_response [of small_naturals
          "Object [(''barcode'', Object [(''toString'', Number 1)])]"]
        http_trigger_response [of small_naturals "Object [(''barcode'', Number 0)]"]
        http_trigger_response [of small_naturals Undefined]
  by (simp add: small_naturals_def digit_char_def)

end
